theory Spec2Isabelle
  imports Complex_Main
begin

section \<open>Sentinel tokens (dispatcher/utils.py, class Token)\<close>











section \<open>Node keys, values, errors and effects\<close>

text \<open>
  Node keys are the two sentinel tokens that can be nodes of a graph and the keys chosen
  by the user (strings). A token is never equal to a user key, whatever its spelling.
\<close>

datatype node = START | SINK | Key string

text \<open>
  Modelled from the spec: the module \<^verbatim>\<open>constants\<close>, which creates the tokens, is not among
  the sources; the tokens are taken to be spelled like their names
  (\<^verbatim>\<open>wf_add_node(START, type='start')\<close>). The spelling only matters where Python orders
  keys (ties in a heap).
\<close>

definition spelling :: "node \<Rightarrow> string" where
  "spelling n = (case n of START \<Rightarrow> ''start'' | SINK \<Rightarrow> ''sink'' | Key s \<Rightarrow> s)"

text \<open>Python's \<^verbatim>\<open><\<close> on strings: lexicographic by code point.\<close>

fun str_less :: "string \<Rightarrow> string \<Rightarrow> bool" where
  "str_less [] [] = False"
| "str_less [] (y # ys) = True"
| "str_less (x # xs) [] = False"
| "str_less (x # xs) (y # ys) =
     ((of_char x :: nat) < of_char y \<or> (x = y \<and> str_less xs ys))"

definition node_less :: "node \<Rightarrow> node \<Rightarrow> bool" where
  "node_less a b = str_less (spelling a) (spelling b)"

text \<open>
  A value carried by an edge of the workflow is the token \<^verbatim>\<open>NONE\<close> or a user value.
  What a user function returns is a value together with what iterating over it yields
  (\<open>None\<close> when it is not iterable), or an exception with its message.
\<close>

datatype 'v val = NONE | V 'v

datatype 'v result = Raises string | Returns "'v val" "'v val list option"

datatype error =
    ValueError string
  | KeyError string
  | TypeError string
  | IndexError string
  | NetworkXError string

text \<open>
  The effects of a run outside the dispatcher: a record given to the logger
  (\<^verbatim>\<open>log.warning\<close>) and a call of a data node's callback with its argument.
\<close>

datatype 'v event = Warning string | Callback node "'v val"

definition quoted :: "string \<Rightarrow> string" where
  "quoted s = CHR 0x27 # s @ [CHR 0x27]"

section \<open>Dictionaries and sets\<close>

text \<open>
  A \<^verbatim>\<open>dict\<close> is an association list with distinct keys in insertion order: assigning to
  a key that is present keeps its place. A \<^verbatim>\<open>set\<close> is a list without repetition; the
  model iterates it in insertion order.
\<close>

fun dict_set :: "'k \<Rightarrow> 'a \<Rightarrow> ('k \<times> 'a) list \<Rightarrow> ('k \<times> 'a) list" where
  "dict_set k v [] = [(k, v)]"
| "dict_set k v (p # ps) = (if fst p = k then (k, v) # ps else p # dict_set k v ps)"

definition dict_update :: "('k \<times> 'a) list \<Rightarrow> ('k \<times> 'a) list \<Rightarrow> ('k \<times> 'a) list" where
  "dict_update d new = fold (\<lambda>p acc. dict_set (fst p) (snd p) acc) new d"

definition dict_fromkeys :: "'k list \<Rightarrow> 'a \<Rightarrow> ('k \<times> 'a) list" where
  "dict_fromkeys ks v = fold (\<lambda>k acc. dict_set k v acc) ks []"

definition dict_get :: "('k \<times> 'a) list \<Rightarrow> 'k \<Rightarrow> 'a \<Rightarrow> 'a" where
  "dict_get d k dflt = (case map_of d k of None \<Rightarrow> dflt | Some v \<Rightarrow> v)"

definition set_add :: "'k \<Rightarrow> 'k list \<Rightarrow> 'k list" where
  "set_add k s = (if k \<in> set s then s else s @ [k])"

definition set_update :: "'k list \<Rightarrow> 'k list \<Rightarrow> 'k list" where
  "set_update s ks = fold set_add ks s"

text \<open>A loop whose body may raise: the first error ends it.\<close>

fun fold_err :: "('a \<Rightarrow> 's \<Rightarrow> error + 's) \<Rightarrow> 'a list \<Rightarrow> 's \<Rightarrow> error + 's" where
  "fold_err f [] s = Inr s"
| "fold_err f (x # xs) s = (case f x s of Inl e \<Rightarrow> Inl e | Inr s' \<Rightarrow> fold_err f xs s')"

text \<open>
  \<^verbatim>\<open>heapq\<close>: \<^verbatim>\<open>heappush\<close> adds an entry, \<^verbatim>\<open>heappop\<close> removes a least one. The heap is a
  list; the entry popped is the first one, in the order of the pushes, that no other
  entry is below.
\<close>

fun first_min :: "('a \<Rightarrow> 'a \<Rightarrow> bool) \<Rightarrow> 'a \<Rightarrow> 'a list \<Rightarrow> 'a" where
  "first_min lt m [] = m"
| "first_min lt m (x # xs) = first_min lt (if lt x m then x else m) xs"

section \<open>Directed graphs\<close>

text \<open>
  The part of \<^verbatim>\<open>networkx.DiGraph\<close> that the dispatcher uses: the dictionary of the nodes
  with their attributes, and the edges with their attributes. The successors
  \<^verbatim>\<open>graph[u]\<close> and the predecessors \<^verbatim>\<open>graph.pred[v]\<close> are read off the list of edges,
  in the order in which the edges were added.
\<close>

record ('a, 'e) digraph =
  gnode :: "(node \<times> 'a) list"
  gedge :: "((node \<times> node) \<times> 'e) list"

definition empty_graph :: "('a, 'e) digraph" where
  "empty_graph = \<lparr>gnode = [], gedge = []\<rparr>"

definition has_node :: "('a, 'e) digraph \<Rightarrow> node \<Rightarrow> bool" where
  "has_node g n = (n \<in> set (map fst (gnode g)))"

definition succ_items :: "('a, 'e) digraph \<Rightarrow> node \<Rightarrow> (node \<times> 'e) list" where
  "succ_items g u = map (\<lambda>p. (snd (fst p), snd p)) (filter (\<lambda>p. fst (fst p) = u) (gedge g))"

definition pred_items :: "('a, 'e) digraph \<Rightarrow> node \<Rightarrow> (node \<times> 'e) list" where
  "pred_items g v = map (\<lambda>p. (fst (fst p), snd p)) (filter (\<lambda>p. snd (fst p) = v) (gedge g))"

definition ensure_node :: "node \<Rightarrow> (node \<times> unit) list \<Rightarrow> (node \<times> unit) list" where
  "ensure_node n ns = (if n \<in> set (map fst ns) then ns else ns @ [(n, ())])"

definition add_node :: "(unit, 'e) digraph \<Rightarrow> node \<Rightarrow> (unit, 'e) digraph" where
  "add_node g n = g\<lparr>gnode := ensure_node n (gnode g)\<rparr>"

text \<open>
  Modelled from the spec: \<^verbatim>\<open>graph_utils.add_edge_fun\<close>, which returns the function that
  adds an edge to the workflow, is not among the sources. It is taken to add the edge
  with the given attributes as \<^verbatim>\<open>DiGraph.add_edge\<close> does, creating the end nodes that
  are missing.
\<close>

definition add_edge :: "(unit, 'e) digraph \<Rightarrow> node \<Rightarrow> node \<Rightarrow> 'e \<Rightarrow> (unit, 'e) digraph" where
  "add_edge g u v e =
     g\<lparr>gnode := ensure_node v (ensure_node u (gnode g)),
       gedge := dict_set (u, v) e (gedge g)\<rparr>"

definition remove_node :: "('a, 'e) digraph \<Rightarrow> node \<Rightarrow> error + ('a, 'e) digraph" where
  "remove_node g n =
     (if \<not> has_node g n then Inl (NetworkXError (spelling n))
      else Inr (g\<lparr>gnode := filter (\<lambda>p. fst p \<noteq> n) (gnode g),
                  gedge := filter (\<lambda>p. fst (fst p) \<noteq> n \<and> snd (fst p) \<noteq> n) (gedge g)\<rparr>))"

definition remove_edges_from ::
  "('a, 'e) digraph \<Rightarrow> (node \<times> node) list \<Rightarrow> ('a, 'e) digraph" where
  "remove_edges_from g es = g\<lparr>gedge := filter (\<lambda>p. fst p \<notin> set es) (gedge g)\<rparr>"

section \<open>The dispatcher\<close>

text \<open>
  The attributes of a data node (\<^verbatim>\<open>add_data\<close>) and of a function node
  (\<^verbatim>\<open>add_function\<close>). An aggregator takes the dictionary of the estimations; it and the
  input domain return \<open>Inl\<close> of the message when they raise. A callback returns the
  message of the exception it raises, if any. Function nodes whose function is a
  \<^verbatim>\<open>SubDispatch\<close> object are not modelled.
\<close>

record 'v data_attr =
  d_wait_inputs :: bool
  d_wildcard :: "bool option"
  d_function :: "((node \<times> 'v val) list \<Rightarrow> string + 'v val) option"
  d_callback :: "('v val \<Rightarrow> string option) option"
  d_weight :: "int option"

record 'v function_attr =
  f_inputs :: "node list"
  f_outputs :: "node list"
  f_function :: "'v val list \<Rightarrow> 'v result"
  f_input_domain :: "('v val list \<Rightarrow> string + bool) option"
  f_weight :: "int option"

datatype 'v node_attr = DataNode "'v data_attr" | FunctionNode "'v function_attr"

definition node_wait_inputs :: "'v node_attr \<Rightarrow> bool" where
  "node_wait_inputs a = (case a of DataNode d \<Rightarrow> d_wait_inputs d | FunctionNode f \<Rightarrow> True)"

definition node_weight :: "'v node_attr \<Rightarrow> int option" where
  "node_weight a = (case a of DataNode d \<Rightarrow> d_weight d | FunctionNode f \<Rightarrow> f_weight f)"

text \<open>
  The \<^verbatim>\<open>Dispatcher\<close> object: the map, the default values and the policy, and the state
  of the last run, which lives on the object.
\<close>

record 'v dispatcher =
  dmap :: "('v node_attr, int option) digraph"
  default_values :: "(node \<times> 'v val) list"
  raises :: bool
  workflow :: "(unit, 'v val option) digraph"
  data_output :: "(node \<times> 'v val) list"
  dist :: "(node \<times> int) list"
  visited :: "node list"
  targets :: "node list"
  cutoff :: "int option"
  wildcards :: "node list"
  wait_in :: "(node \<times> bool) list"

text \<open>\<^verbatim>\<open>Dispatcher(dmap, default_values, raises)\<close>.\<close>

definition Dispatcher ::
  "('v node_attr, int option) digraph \<Rightarrow> (node \<times> 'v val) list \<Rightarrow> bool \<Rightarrow> 'v dispatcher" where
  "Dispatcher m dv r =
     \<lparr>dmap = m, default_values = dv, raises = r, workflow = empty_graph, data_output = [],
      dist = [], visited = [], targets = [], cutoff = None, wildcards = [], wait_in = []\<rparr>"

text \<open>\<^verbatim>\<open>_warning(raises)\<close>: raise the message, or give it to the logger.\<close>

definition warning :: "'v dispatcher \<Rightarrow> string \<Rightarrow> error + 'v event list" where
  "warning dsp msg = (if raises dsp then Inl (ValueError msg) else Inr [Warning msg])"

text \<open>\<^verbatim>\<open>_check_cutoff\<close>: true when the distance is beyond the cutoff.\<close>

definition check_cutoff :: "'v dispatcher \<Rightarrow> int \<Rightarrow> bool" where
  "check_cutoff dsp distance = (case cutoff dsp of None \<Rightarrow> False | Some c \<Rightarrow> distance > c)"

text \<open>\<^verbatim>\<open>_edge_length\<close>: \<^verbatim>\<open>edge.get(weight, 1) + node_out.get(weight, 0)\<close>.\<close>

definition edge_length :: "int option \<Rightarrow> 'v node_attr \<Rightarrow> int" where
  "edge_length e node_out =
     (case e of None \<Rightarrow> 1 | Some w \<Rightarrow> w) + (case node_weight node_out of None \<Rightarrow> 0 | Some w \<Rightarrow> w)"

text \<open>
  \<^verbatim>\<open>_check_wait_input_flag\<close>: the flag in force is \<^verbatim>\<open>_wait_in.get(node_id, wait_in)\<close>
  (with an empty \<^verbatim>\<open>_wait_in\<close> this is the flag passed); the check is true when the node
  waits and some predecessor in the map has not been visited.
\<close>

definition pred_keys :: "('a, 'e) digraph \<Rightarrow> node \<Rightarrow> node list" where
  "pred_keys g v = map fst (pred_items g v)"

definition check_wait_input_flag :: "'v dispatcher \<Rightarrow> bool \<Rightarrow> node \<Rightarrow> bool" where
  "check_wait_input_flag dsp wait node_id =
     (dict_get (wait_in dsp) node_id wait
      \<and> (\<exists>p \<in> set (pred_keys (dmap dsp) node_id). p \<notin> set (visited dsp)))"

text \<open>\<^verbatim>\<open>_set_wildcards(inputs, outputs)\<close>; \<open>None\<close> for \<^verbatim>\<open>outputs\<close> clears the set.\<close>

definition node_wildcard :: "'v node_attr \<Rightarrow> bool" where
  "node_wildcard a =
     (case a of DataNode d \<Rightarrow> (case d_wildcard d of None \<Rightarrow> True | Some b \<Rightarrow> b)
      | FunctionNode f \<Rightarrow> True)"

definition set_wildcards ::
  "'v dispatcher \<Rightarrow> node list \<Rightarrow> node list option \<Rightarrow> error + 'v dispatcher" where
  "set_wildcards dsp ins outs =
     (case outs of
        None \<Rightarrow> Inr (dsp\<lparr>wildcards := []\<rparr>)
      | Some os \<Rightarrow>
          if os = [] then Inr (dsp\<lparr>wildcards := []\<rparr>)
          else
            (case fold_err
                    (\<lambda>u acc. if u \<in> set os
                              then (case map_of (gnode (dmap dsp)) u of
                                      None \<Rightarrow> Inl (KeyError (spelling u))
                                    | Some a \<Rightarrow> Inr (dict_set u a acc))
                              else Inr acc)
                    ins [] of
               Inl e \<Rightarrow> Inl e
             | Inr ws \<Rightarrow>
                 Inr (dsp\<lparr>wildcards :=
                        set_update [] (map fst (filter (\<lambda>p. node_wildcard (snd p)) ws))\<rparr>)))"

text \<open>\<^verbatim>\<open>_set_wait_in\<close>.\<close>

definition set_wait_in :: "'v dispatcher \<Rightarrow> 'v dispatcher" where
  "set_wait_in dsp =
     dsp\<lparr>wait_in :=
       fold (\<lambda>p acc.
               case snd p of
                 FunctionNode f \<Rightarrow>
                   (if f_input_domain f \<noteq> None
                    then fold (\<lambda>k acc'. dict_set k True acc') (f_outputs f) acc
                    else acc)
               | DataNode d \<Rightarrow> (if d_wait_inputs d then dict_set (fst p) True acc else acc))
            (gnode (dmap dsp)) []\<rparr>"

text \<open>
  The \<^verbatim>\<open>inputs\<close> of \<^verbatim>\<open>dispatch\<close> and \<^verbatim>\<open>shrink_dsp\<close>: a dictionary of values, or any
  other iterable of keys (a list or a set).
\<close>

datatype 'v py_inputs = Dict "(node \<times> 'v val) list" | Keys "node list"

definition input_keys :: "'v py_inputs \<Rightarrow> node list" where
  "input_keys i = (case i of Dict d \<Rightarrow> map fst d | Keys ks \<Rightarrow> ks)"

text \<open>
  \<^verbatim>\<open>_get_initial_values\<close>. Outside the no-call mode the inputs update a dictionary, which
  fails for an iterable of keys (keys that are themselves pairs are left out of the
  model).
\<close>

definition get_initial_values ::
  "'v dispatcher \<Rightarrow> 'v py_inputs option \<Rightarrow> bool \<Rightarrow> error + (node \<times> 'v val) list" where
  "get_initial_values dsp ins no_call =
     (if no_call then
        (let initial_values = dict_fromkeys (map fst (default_values dsp)) NONE in
         case ins of
           None \<Rightarrow> Inr initial_values
         | Some i \<Rightarrow> Inr (dict_update initial_values (dict_fromkeys (input_keys i) NONE)))
      else
        (let initial_values = default_values dsp in
         case ins of
           None \<Rightarrow> Inr initial_values
         | Some (Dict d) \<Rightarrow> Inr (dict_update initial_values d)
         | Some (Keys ks) \<Rightarrow>
             if ks = [] then Inr initial_values
             else Inl (ValueError ''dictionary update sequence element #0 has length 1; 2 is required'')))"

section \<open>Estimation of a node\<close>

text \<open>
  \<^verbatim>\<open>_get_node_estimations\<close>: the estimations of a data node are the edges of the workflow
  into it; when there are several and the node does not wait, only the one of least
  distance is kept and the other edges leave the workflow.
\<close>

definition wf_pred ::
  "(unit, 'e) digraph \<Rightarrow> node \<Rightarrow> error + (node \<times> 'e) list" where
  "wf_pred wfl n = (if has_node wfl n then Inr (pred_items wfl n) else Inl (KeyError (spelling n)))"

definition est_less :: "int \<times> node \<times> 'a \<Rightarrow> int \<times> node \<times> 'a \<Rightarrow> bool" where
  "est_less x y = (fst x < fst y \<or> (fst x = fst y \<and> node_less (fst (snd x)) (fst (snd y))))"

definition get_node_estimations ::
  "'v dispatcher \<Rightarrow> 'v node_attr \<Rightarrow> node
     \<Rightarrow> error + ((node \<times> 'v val option) list \<times> bool \<times> 'v dispatcher)" where
  "get_node_estimations dsp node_attr node_id =
     (case wf_pred (workflow dsp) node_id of
        Inl e \<Rightarrow> Inl e
      | Inr estimations \<Rightarrow>
          (let wait = node_wait_inputs node_attr in
           if length estimations > 1 \<and> \<not> dict_get (wait_in dsp) node_id wait then
             (case fold_err
                     (\<lambda>p est.
                        if fst p = START then Inr est
                        else (case map_of (dist dsp) (fst p) of
                                None \<Rightarrow> Inl (KeyError (spelling (fst p)))
                              | Some dk \<Rightarrow>
                                  (case map_of (gedge (dmap dsp)) (fst p, node_id) of
                                     None \<Rightarrow> Inl (KeyError (spelling node_id))
                                   | Some e \<Rightarrow>
                                       Inr (est @ [(dk + edge_length e node_attr, fst p, snd p)]))))
                     estimations [] of
                Inl e \<Rightarrow> Inl e
              | Inr [] \<Rightarrow> Inl (IndexError ''list index out of range'')
              | Inr (x # xs) \<Rightarrow>
                  (let m = first_min est_less x xs in
                   Inr ([(fst (snd m), snd (snd m))], wait,
                        dsp\<lparr>workflow :=
                          remove_edges_from (workflow dsp)
                            (map (\<lambda>v. (fst (snd v), node_id)) (remove1 m (x # xs)))\<rparr>)))
           else Inr (estimations, wait, dsp)))"

text \<open>
  The dictionary \<^verbatim>\<open>{k: v['value'] for k, v in est.items()}\<close> and the call of the
  aggregator \<^verbatim>\<open>node_attr['function'](kwargs)\<close>, inside the \<^verbatim>\<open>try\<close>: \<open>Inl\<close> is the message
  of the exception.
\<close>

fun collect_values :: "(node \<times> 'v val option) list \<Rightarrow> string + (node \<times> 'v val) list" where
  "collect_values [] = Inr []"
| "collect_values (p # ps) =
     (case snd p of
        None \<Rightarrow> Inl (quoted ''value'')
      | Some x \<Rightarrow> (case collect_values ps of Inl m \<Rightarrow> Inl m | Inr r \<Rightarrow> Inr ((fst p, x) # r)))"

definition call_aggregator ::
  "'v data_attr \<Rightarrow> (node \<times> 'v val option) list \<Rightarrow> string + 'v val" where
  "call_aggregator a est =
     (case collect_values est of
        Inl m \<Rightarrow> Inl m
      | Inr kwargs \<Rightarrow>
          (case d_function a of None \<Rightarrow> Inl (quoted ''function'') | Some f \<Rightarrow> f kwargs))"

text \<open>
  The value of a data node in the normal mode: an error that is not caught, an
  exception caught by the \<^verbatim>\<open>try\<close>, or the value.
\<close>

datatype 'v estimation = Hard error | Soft string | Estimated "'v val"

definition data_node_value ::
  "'v data_attr \<Rightarrow> (node \<times> 'v val option) list \<Rightarrow> bool \<Rightarrow> 'v estimation" where
  "data_node_value a est wait =
     (if \<not> wait then
        (if d_function a \<noteq> None then
           (case call_aggregator a est of Inl ex \<Rightarrow> Soft ex | Inr x \<Rightarrow> Estimated x)
         else
           (case est of
              [] \<Rightarrow> Hard (IndexError ''list index out of range'')
            | p # ps \<Rightarrow>
                (case snd p of None \<Rightarrow> Hard (KeyError (quoted ''value'')) | Some x \<Rightarrow> Estimated x)))
      else
        (case call_aggregator a est of Inl ex \<Rightarrow> Soft ex | Inr x \<Rightarrow> Estimated x))"

definition data_error_msg :: "node \<Rightarrow> string \<Rightarrow> string" where
  "data_error_msg node_id ex =
     ''Estimation error at data node ('' @ spelling node_id @ '') due to: '' @ ex"

definition callback_error_msg :: "node \<Rightarrow> string \<Rightarrow> string" where
  "callback_error_msg node_id ex =
     ''Callback error at data node ('' @ spelling node_id @ '') due to: '' @ ex"

definition function_error_msg :: "node \<Rightarrow> string \<Rightarrow> string" where
  "function_error_msg node_id ex =
     ''Estimation error at function node ('' @ spelling node_id @ '') due to: '' @ ex"

text \<open>The call of the callback of a data node, if it has one.\<close>

definition invoke_callback ::
  "'v dispatcher \<Rightarrow> node \<Rightarrow> 'v data_attr \<Rightarrow> 'v val \<Rightarrow> error + 'v event list" where
  "invoke_callback dsp node_id a x =
     (case d_callback a of
        None \<Rightarrow> Inr []
      | Some cb \<Rightarrow>
          (case cb x of
             None \<Rightarrow> Inr [Callback node_id x]
           | Some ex \<Rightarrow>
               (case warning dsp (callback_error_msg node_id ex) of
                  Inl e \<Rightarrow> Inl e
                | Inr evs \<Rightarrow> Inr (Callback node_id x # evs))))"

text \<open>
  The end of \<^verbatim>\<open>_set_data_node_output\<close>: the edges to the successor functions enter the
  workflow, unless the first successor has been visited.
\<close>

definition set_workflow_succ :: "'v dispatcher \<Rightarrow> node \<Rightarrow> 'v val option \<Rightarrow> 'v dispatcher" where
  "set_workflow_succ dsp node_id x =
     (let succ_fun = map fst (succ_items (dmap dsp) node_id) in
      if succ_fun \<noteq> [] \<and> hd succ_fun \<notin> set (visited dsp)
      then dsp\<lparr>workflow := fold (\<lambda>u wfl. add_edge wfl node_id u x) succ_fun (workflow dsp)\<rparr>
      else dsp)"

text \<open>
  \<^verbatim>\<open>_set_data_node_output\<close>: the status, the dispatcher and the events of the call.
\<close>

definition set_data_node_output ::
  "'v dispatcher \<Rightarrow> node \<Rightarrow> 'v data_attr \<Rightarrow> bool
     \<Rightarrow> error + (bool \<times> 'v dispatcher \<times> 'v event list)" where
  "set_data_node_output dsp node_id a no_call =
     (case get_node_estimations dsp (DataNode a) node_id of
        Inl e \<Rightarrow> Inl e
      | Inr r \<Rightarrow>
          (let est = fst r; wait = fst (snd r); dsp1 = snd (snd r) in
           if \<not> no_call then
             (case data_node_value a est wait of
                Hard e \<Rightarrow> Inl e
              | Soft ex \<Rightarrow>
                  (case warning dsp1 (data_error_msg node_id ex) of
                     Inl e \<Rightarrow> Inl e
                   | Inr evs \<Rightarrow> Inr (False, dsp1, evs))
              | Estimated x \<Rightarrow>
                  (case invoke_callback dsp1 node_id a x of
                     Inl e \<Rightarrow> Inl e
                   | Inr evs \<Rightarrow>
                       (let dsp2 = (if x \<noteq> NONE
                                    then dsp1\<lparr>data_output := dict_set node_id x (data_output dsp1)\<rparr>
                                    else dsp1)
                        in Inr (True, set_workflow_succ dsp2 node_id (Some x), evs))))
           else
             Inr (True,
                  set_workflow_succ
                    (dsp1\<lparr>data_output := dict_set node_id NONE (data_output dsp1)\<rparr>)
                    node_id None,
                  [])))"

text \<open>
  \<^verbatim>\<open>_set_function_node_output\<close>. The arguments are read from the workflow in the order
  of \<^verbatim>\<open>inputs\<close>; the domain and the function are called inside the \<^verbatim>\<open>try\<close>.
\<close>

fun function_args ::
  "(node \<times> 'v val option) list \<Rightarrow> node list \<Rightarrow> error + 'v val list" where
  "function_args preds [] = Inr []"
| "function_args preds (k # ks) =
     (case map_of preds k of
        None \<Rightarrow> Inl (KeyError (spelling k))
      | Some None \<Rightarrow> Inl (KeyError (quoted ''value''))
      | Some (Some x) \<Rightarrow>
          (case function_args preds ks of Inl e \<Rightarrow> Inl e | Inr xs \<Rightarrow> Inr (x # xs)))"

datatype 'v call = Rejected | Failed string | Result "'v val" "'v val list option"

definition apply_function :: "'v function_attr \<Rightarrow> 'v val list \<Rightarrow> 'v call" where
  "apply_function a args =
     (case f_function a args of Raises ex \<Rightarrow> Failed ex | Returns r its \<Rightarrow> Result r its)"

definition call_function :: "'v function_attr \<Rightarrow> 'v val list \<Rightarrow> 'v call" where
  "call_function a args =
     (case f_input_domain a of
        None \<Rightarrow> apply_function a args
      | Some domain \<Rightarrow>
          (case domain args of
             Inl ex \<Rightarrow> Failed ex
           | Inr ok \<Rightarrow> if \<not> ok then Rejected else apply_function a args))"

definition set_function_node_output ::
  "'v dispatcher \<Rightarrow> node \<Rightarrow> 'v function_attr \<Rightarrow> bool
     \<Rightarrow> error + (bool \<times> 'v dispatcher \<times> 'v event list)" where
  "set_function_node_output dsp node_id a no_call =
     (let o_nds = f_outputs a;
          output_nodes = filter (\<lambda>u. u \<notin> set (map fst (dist dsp)) \<and> has_node (dmap dsp) u) o_nds
      in
      if output_nodes = [] then
        (case remove_node (workflow dsp) node_id of
           Inl e \<Rightarrow> Inl e
         | Inr wfl \<Rightarrow> Inr (False, dsp\<lparr>workflow := wfl\<rparr>, []))
      else if no_call then
        Inr (True,
             dsp\<lparr>workflow := fold (\<lambda>u wfl. add_edge wfl node_id u None) output_nodes (workflow dsp)\<rparr>,
             [])
      else
        (case wf_pred (workflow dsp) node_id of
           Inl e \<Rightarrow> Inl e
         | Inr preds \<Rightarrow>
             (case function_args preds (f_inputs a) of
                Inl e \<Rightarrow> Inl e
              | Inr args0 \<Rightarrow>
                  (case call_function a (filter (\<lambda>v. v \<noteq> NONE) args0) of
                     Rejected \<Rightarrow> Inr (False, dsp, [])
                   | Failed ex \<Rightarrow>
                       (case warning dsp (function_error_msg node_id ex) of
                          Inl e \<Rightarrow> Inl e
                        | Inr evs \<Rightarrow> Inr (False, dsp, evs))
                   | Result res its \<Rightarrow>
                       (case (if length o_nds > 1 then its else Some [res]) of
                          None \<Rightarrow> Inl (TypeError ''zip argument #2 must support iteration'')
                        | Some rs \<Rightarrow>
                            Inr (True,
                                 dsp\<lparr>workflow :=
                                   fold (\<lambda>p wfl. if fst p \<in> set output_nodes
                                                then add_edge wfl node_id (fst p) (Some (snd p))
                                                else wfl)
                                        (zip o_nds rs) (workflow dsp)\<rparr>,
                                 []))))))"

text \<open>\<^verbatim>\<open>_set_node_output\<close>.\<close>

definition set_node_output ::
  "'v dispatcher \<Rightarrow> node \<Rightarrow> bool \<Rightarrow> error + (bool \<times> 'v dispatcher \<times> 'v event list)" where
  "set_node_output dsp node_id no_call =
     (case map_of (gnode (dmap dsp)) node_id of
        None \<Rightarrow> Inl (KeyError (spelling node_id))
      | Some (DataNode a) \<Rightarrow> set_data_node_output dsp node_id a no_call
      | Some (FunctionNode a) \<Rightarrow> set_function_node_output dsp node_id a no_call)"

section \<open>The run\<close>

text \<open>
  The variables of a run that are not attributes of the dispatcher: the fringe
  (a heap of entries \<^verbatim>\<open>(distance, wait, node)\<close>), the distances of the nodes seen, and
  the events so far.
\<close>

record 'v run =
  r_dsp :: "'v dispatcher"
  r_fringe :: "(int \<times> bool \<times> node) list"
  r_seen :: "(node \<times> int) list"
  r_events :: "'v event list"

text \<open>
  The order of Python on the entries of the fringe: by distance, then the flag
  (\<^verbatim>\<open>False < True\<close>), then the key.
\<close>

definition entry_less :: "int \<times> bool \<times> node \<Rightarrow> int \<times> bool \<times> node \<Rightarrow> bool" where
  "entry_less x y =
     (fst x < fst y
      \<or> (fst x = fst y
          \<and> ((\<not> fst (snd x) \<and> fst (snd y))
              \<or> (fst (snd x) = fst (snd y) \<and> node_less (snd (snd x)) (snd (snd y))))))"

definition heappop ::
  "(int \<times> bool \<times> node) list \<Rightarrow> (int \<times> bool \<times> node) \<times> (int \<times> bool \<times> node) list" where
  "heappop h = (let m = first_min entry_less (hd h) (tl h) in (m, remove1 m h))"

text \<open>
  \<^verbatim>\<open>_init_workflow\<close>. Its arguments \<^verbatim>\<open>inputs\<close> and \<^verbatim>\<open>input_value\<close> are given as the list
  of the input keys, each with the attribute that \<^verbatim>\<open>input_value\<close> gives to its edges
  (\<open>Some\<close> of the value, or \<open>None\<close> in the no-call mode). First the body of the loop over
  the successors of a wildcard, then the body of the loop over the inputs.
\<close>

definition init_wildcard_edge ::
  "'v val option \<Rightarrow> node \<Rightarrow> node \<times> int option \<Rightarrow> 'v run \<Rightarrow> error + 'v run" where
  "init_wildcard_edge x v p st =
     (let w = fst p;
          d1 = (r_dsp st)\<lparr>workflow := add_edge (workflow (r_dsp st)) v w x\<rparr>
      in
      case map_of (gnode (dmap d1)) w of
        None \<Rightarrow> Inl (KeyError (spelling w))
      | Some a \<Rightarrow>
          (let vw_dist = edge_length (snd p) a in
           if check_cutoff d1 vw_dist \<or> check_wait_input_flag d1 True w
           then Inr (st\<lparr>r_dsp := d1\<rparr>)
           else Inr (st\<lparr>r_dsp := d1,
                        r_seen := dict_set w vw_dist (r_seen st),
                        r_fringe := r_fringe st @ [(vw_dist, True, w)]\<rparr>)))"

definition init_input :: "node \<times> 'v val option \<Rightarrow> 'v run \<Rightarrow> error + 'v run" where
  "init_input p st =
     (let v = fst p; x = snd p in
      case map_of (gnode (dmap (r_dsp st))) v of
        None \<Rightarrow> Inr st
      | Some a \<Rightarrow>
          (let wait = node_wait_inputs a;
               d1 = (r_dsp st)\<lparr>workflow := add_edge (workflow (r_dsp st)) START v x\<rparr>
           in
           if v \<in> set (wildcards d1) then
             fold_err (init_wildcard_edge x v) (succ_items (dmap d1) v)
               (st\<lparr>r_dsp := d1\<lparr>visited := set_add v (visited d1),
                                  workflow := add_node (workflow d1) v\<rparr>\<rparr>)
           else if \<not> check_wait_input_flag d1 wait v then
             Inr (st\<lparr>r_dsp := d1,
                      r_seen := dict_set v 0 (r_seen st),
                      r_fringe := r_fringe st @ [(0, wait, v)]\<rparr>)
           else Inr (st\<lparr>r_dsp := d1\<rparr>)))"

definition init_workflow ::
  "'v dispatcher \<Rightarrow> (node \<times> 'v val option) list \<Rightarrow> error + 'v run" where
  "init_workflow d ins =
     fold_err init_input ins
       \<lparr>r_dsp = d\<lparr>workflow := add_node empty_graph START, data_output := [],
                   visited := [START], dist := [(START, - 1)]\<rparr>,
        r_fringe = [], r_seen = [(START, - 1)], r_events = []\<rparr>"

text \<open>
  \<^verbatim>\<open>_init_run\<close>: the initial values, the targets, the cutoff, the wildcards, and the
  workflow initialised from the initial values.
\<close>

definition init_run ::
  "'v dispatcher \<Rightarrow> 'v py_inputs option \<Rightarrow> node list option \<Rightarrow> bool \<Rightarrow> int option \<Rightarrow> bool
     \<Rightarrow> error + ((node \<times> 'v val) list \<times> 'v run)" where
  "init_run d ins outs wildcard cutoff_arg no_call =
     (case get_initial_values d ins no_call of
        Inl e \<Rightarrow> Inl e
      | Inr ivals \<Rightarrow>
          (let d1 = d\<lparr>targets := (case outs of None \<Rightarrow> [] | Some os \<Rightarrow> set_update [] os),
                      cutoff := cutoff_arg\<rparr>
           in
           case (if wildcard then set_wildcards d1 (map fst ivals) outs
                 else set_wildcards d1 [] None) of
             Inl e \<Rightarrow> Inl e
           | Inr d2 \<Rightarrow>
               (case init_workflow d2
                       (map (\<lambda>p. (fst p, if no_call then None else Some (snd p))) ivals) of
                  Inl e \<Rightarrow> Inl e
                | Inr st \<Rightarrow> Inr (ivals, st))))"

text \<open>
  \<^verbatim>\<open>_check_targets\<close>: the node leaves the set of the targets; true when it was the last
  one. (The source chooses between this function and the constant \<^verbatim>\<open>False\<close> when the run
  starts; a set of targets that is not empty then becomes empty only when the loop ends.)
\<close>

definition check_targets :: "'v dispatcher \<Rightarrow> node \<Rightarrow> bool \<times> 'v dispatcher" where
  "check_targets d v =
     (if targets d = [] then (False, d)
      else if v \<in> set (targets d)
      then (let t = removeAll v (targets d) in (t = [], d\<lparr>targets := t\<rparr>))
      else (False, d))"

text \<open>
  The body of the loop of \<^verbatim>\<open>_run\<close> over the successors \<^verbatim>\<open>graph[v].items()\<close> of the node
  popped at distance \<open>d\<close>.
\<close>

definition relax_edge :: "int \<Rightarrow> node \<times> int option \<Rightarrow> 'v run \<Rightarrow> error + 'v run" where
  "relax_edge d p st =
     (let w = fst p in
      case map_of (gnode (dmap (r_dsp st))) w of
        None \<Rightarrow> Inl (KeyError (spelling w))
      | Some a \<Rightarrow>
          (let vw_d = d + edge_length (snd p) a;
               wait = node_wait_inputs a
           in
           if check_cutoff (r_dsp st) vw_d \<or> check_wait_input_flag (r_dsp st) wait w
           then Inr st
           else
             (case map_of (dist (r_dsp st)) w of
                Some dw \<Rightarrow>
                  if vw_d < dw
                  then Inl (ValueError ''Contradictory paths found: negative weights?'')
                  else Inr st
              | None \<Rightarrow>
                  if (case map_of (r_seen st) w of None \<Rightarrow> True | Some sw \<Rightarrow> vw_d < sw)
                  then Inr (st\<lparr>r_seen := dict_set w vw_d (r_seen st),
                               r_fringe := r_fringe st @ [(vw_d, wait, w)]\<rparr>)
                  else Inr st)))"

text \<open>
  One turn of the \<^verbatim>\<open>while fringe\<close> loop of \<^verbatim>\<open>_run\<close>, for a fringe that is not empty:
  the loop goes on (\<^verbatim>\<open>continue\<close>, or the end of the body) or ends (\<^verbatim>\<open>break\<close>).
\<close>

datatype 'v progress = Continue "'v run" | Break "'v run"

definition run_step :: "bool \<Rightarrow> 'v run \<Rightarrow> error + 'v progress" where
  "run_step no_call st =
     (let popped = heappop (r_fringe st);
          d = fst (fst popped);
          v = snd (snd (fst popped));
          ds = (r_dsp st)\<lparr>dist := dict_set v d (dist (r_dsp st)),
                          visited := set_add v (visited (r_dsp st))\<rparr>
      in
      case set_node_output ds v no_call of
        Inl e \<Rightarrow> Inl e
      | Inr r \<Rightarrow>
          (let st1 = st\<lparr>r_dsp := fst (snd r), r_fringe := snd popped,
                        r_events := r_events st @ snd (snd r)\<rparr>
           in
           if \<not> fst r then Inr (Continue st1)
           else
             (let ct = check_targets (r_dsp st1) v in
              if fst ct then Inr (Break (st1\<lparr>r_dsp := snd ct\<rparr>))
              else
                (case fold_err (relax_edge d) (succ_items (dmap (snd ct)) v)
                        (st1\<lparr>r_dsp := snd ct\<rparr>) of
                   Inl e \<Rightarrow> Inl e
                 | Inr st2 \<Rightarrow> Inr (Continue st2)))))"

section \<open>Termination of the run\<close>

lemma first_min_in: "first_min lt m xs \<in> set (m # xs)"
  by (induction xs arbitrary: m) auto

lemma heappop_in: "h \<noteq> [] \<Longrightarrow> fst (heappop h) \<in> set h"
  using first_min_in [of entry_less "hd h" "tl h"]
  by (cases h) (auto simp: heappop_def Let_def)

lemma heappop_rest: "snd (heappop h) = remove1 (fst (heappop h)) h"
  by (simp add: heappop_def Let_def)

lemma fst_set_dict_set: "fst ` set (dict_set k v d) = insert k (fst ` set d)"
  by (induction d) auto

lemma map_fst_dict_set: "set (map fst (dict_set k v d)) = insert k (set (map fst d))"
  using fst_set_dict_set [of k v d] by simp

text \<open>
  An estimation changes the workflow and the data output of the dispatcher only.
\<close>

definition frame :: "'v dispatcher \<Rightarrow> 'v dispatcher \<Rightarrow> bool" where
  "frame d d' =
     (dmap d' = dmap d \<and> default_values d' = default_values d \<and> raises d' = raises d
      \<and> dist d' = dist d \<and> visited d' = visited d \<and> targets d' = targets d
      \<and> cutoff d' = cutoff d \<and> wildcards d' = wildcards d \<and> wait_in d' = wait_in d)"

lemma frame_refl [simp]: "frame d d" by (simp add: frame_def)

lemma frame_trans: "frame d d' \<Longrightarrow> frame d' d'' \<Longrightarrow> frame d d''"
  by (simp add: frame_def)

lemma frame_workflow [simp]: "frame d (d\<lparr>workflow := w\<rparr>)"
  by (simp add: frame_def)

lemma frame_data_output [simp]: "frame d (d\<lparr>data_output := w\<rparr>)"
  by (simp add: frame_def)

lemma get_node_estimations_frame:
  "get_node_estimations d a n = Inr r \<Longrightarrow> frame d (snd (snd r))"
  by (auto simp: get_node_estimations_def Let_def split: sum.splits if_splits list.splits)

lemma set_workflow_succ_frame: "frame d (set_workflow_succ d n x)"
  by (simp add: set_workflow_succ_def Let_def)

lemma set_data_node_output_frame:
  assumes "set_data_node_output d n a nc = Inr r"
  shows "frame d (fst (snd r))"
proof -
  from assms obtain g where g: "get_node_estimations d (DataNode a) n = Inr g"
    by (auto simp: set_data_node_output_def split: sum.splits)
  have f1: "frame d (snd (snd g))" by (rule get_node_estimations_frame [OF g])
  have "frame (snd (snd g)) (fst (snd r))"
    using assms g
    by (auto simp: set_data_node_output_def Let_def frame_def set_workflow_succ_def
             split: sum.splits if_splits estimation.splits)
  with f1 show ?thesis by (rule frame_trans)
qed

lemma set_function_node_output_frame:
  "set_function_node_output d n a nc = Inr r \<Longrightarrow> frame d (fst (snd r))"
  by (auto simp: set_function_node_output_def Let_def
           split: sum.splits if_splits call.splits option.splits)

lemma set_node_output_frame:
  "set_node_output d n nc = Inr r \<Longrightarrow> frame d (fst (snd r))"
  by (auto simp: set_node_output_def set_data_node_output_frame set_function_node_output_frame
           split: option.splits node_attr.splits)

lemma check_targets_frame:
  "dmap (snd (check_targets d v)) = dmap d \<and> dist (snd (check_targets d v)) = dist d
   \<and> visited (snd (check_targets d v)) = visited d
   \<and> wait_in (snd (check_targets d v)) = wait_in d"
  by (simp add: check_targets_def Let_def)

text \<open>What relaxation adds to the fringe: entries for nodes of the map without a distance.\<close>

definition pushed :: "'v run \<Rightarrow> 'v run \<Rightarrow> bool" where
  "pushed st st' =
     (r_dsp st' = r_dsp st \<and> r_events st' = r_events st
      \<and> (\<exists>new. r_fringe st' = r_fringe st @ new
            \<and> (\<forall>e \<in> set new. snd (snd e) \<in> set (map fst (gnode (dmap (r_dsp st))))
                              \<and> snd (snd e) \<notin> set (map fst (dist (r_dsp st))))))"

lemma pushed_refl [simp]: "pushed st st"
  by (simp add: pushed_def)

lemma pushed_trans: "pushed st st' \<Longrightarrow> pushed st' st'' \<Longrightarrow> pushed st st''"
  unfolding pushed_def by (elim conjE exE) (rule conjI, simp, rule conjI, simp, rule_tac x="new @ newa" in exI, auto)

lemma map_of_None_keys: "map_of d k = None \<Longrightarrow> k \<notin> set (map fst d)"
  by (simp add: map_of_eq_None_iff)

lemma map_of_Some_keys: "map_of d k = Some a \<Longrightarrow> k \<in> set (map fst d)"
  by (metis map_of_eq_None_iff option.distinct(1) set_map)

lemma relax_edge_pushed: "relax_edge d p st = Inr st' \<Longrightarrow> pushed st st'"
  by (auto simp: relax_edge_def Let_def pushed_def map_of_eq_None_iff
           dest: map_of_Some_keys split: option.splits if_splits)

lemma fold_relax_pushed:
  "fold_err (relax_edge d) ps st = Inr st' \<Longrightarrow> pushed st st'"
proof (induction ps arbitrary: st)
  case Nil
  then show ?case by simp
next
  case (Cons p ps)
  then show ?case
    by (auto split: sum.splits intro: pushed_trans dest: relax_edge_pushed)
qed


text \<open>
  The measure of the loop: the nodes without a distance, then the entries of the fringe
  for nodes that have one. A pop gives its node a distance or removes a stale entry;
  what is pushed is for nodes without a distance.
\<close>

definition unsettled :: "'v run \<Rightarrow> node set" where
  "unsettled st =
     (set (map fst (gnode (dmap (r_dsp st)))) \<union> (\<lambda>e. snd (snd e)) ` set (r_fringe st))
       - set (map fst (dist (r_dsp st)))"

definition stale :: "'v run \<Rightarrow> nat" where
  "stale st =
     length (filter (\<lambda>e. snd (snd e) \<in> set (map fst (dist (r_dsp st)))) (r_fringe st))"

lemma finite_unsettled [simp]: "finite (unsettled st)"
  by (simp add: unsettled_def)

lemma length_filter_remove1:
  "x \<in> set xs \<Longrightarrow> P x \<Longrightarrow> length (filter P (remove1 x xs)) < length (filter P xs)"
  by (induction xs) auto

lemma length_filter_remove1_le:
  "length (filter P (remove1 x xs)) \<le> length (filter P xs)"
  by (induction xs) auto

text \<open>The state after the pop, the estimation and the relaxation.\<close>

lemma run_step_Continue:
  assumes "run_step nc st = Inr (Continue st')" and "r_fringe st \<noteq> []"
  shows "\<exists>new. dmap (r_dsp st') = dmap (r_dsp st)
     \<and> set (map fst (dist (r_dsp st')))
         = insert (snd (snd (fst (heappop (r_fringe st))))) (set (map fst (dist (r_dsp st))))
     \<and> r_fringe st' = remove1 (fst (heappop (r_fringe st))) (r_fringe st) @ new
     \<and> (\<forall>e \<in> set new. snd (snd e) \<in> set (map fst (gnode (dmap (r_dsp st'))))
                        \<and> snd (snd e) \<notin> set (map fst (dist (r_dsp st'))))"
proof -
  define popped where "popped = heappop (r_fringe st)"
  define ds where "ds = (r_dsp st)\<lparr>dist := dict_set (snd (snd (fst popped))) (fst (fst popped)) (dist (r_dsp st)),
                          visited := set_add (snd (snd (fst popped))) (visited (r_dsp st))\<rparr>"
  from assms(1) obtain r where r: "set_node_output ds (snd (snd (fst popped))) nc = Inr r"
    by (auto simp: run_step_def Let_def popped_def ds_def split: sum.splits)
  have fr: "frame ds (fst (snd r))" by (rule set_node_output_frame [OF r])
  define st1 where "st1 = st\<lparr>r_dsp := fst (snd r), r_fringe := snd popped,
                        r_events := r_events st @ snd (snd r)\<rparr>"
  have dsd: "dmap ds = dmap (r_dsp st)"
    "set (map fst (dist ds)) = insert (snd (snd (fst popped))) (set (map fst (dist (r_dsp st))))"
    by (simp_all add: ds_def fst_set_dict_set)
  have rest: "snd popped = remove1 (fst popped) (r_fringe st)"
    by (simp add: popped_def heappop_rest)
  show ?thesis
  proof (cases "fst r")
    case False
    with assms(1) r have "st' = st1"
      by (simp add: run_step_def Let_def popped_def ds_def st1_def)
    then show ?thesis
      using fr dsd rest
      by (intro exI [of _ "[]"]) (simp add: st1_def frame_def popped_def)
  next
    case True
    define ct where "ct = check_targets (r_dsp st1) (snd (snd (fst popped)))"
    from True assms(1) r have
      f: "fold_err (relax_edge (fst (fst popped))) (succ_items (dmap (snd ct)) (snd (snd (fst popped))))
            (st1\<lparr>r_dsp := snd ct\<rparr>) = Inr st'"
      by (auto simp: run_step_def Let_def popped_def ds_def st1_def ct_def
               split: sum.splits if_splits)
    have p: "pushed (st1\<lparr>r_dsp := snd ct\<rparr>) st'" by (rule fold_relax_pushed [OF f])
    have c: "dmap (snd ct) = dmap ds" "dist (snd ct) = dist ds"
      using fr check_targets_frame [of "r_dsp st1" "snd (snd (fst popped))"]
      by (simp_all add: ct_def st1_def frame_def)
    from p obtain new where
      n: "r_dsp st' = snd ct" "r_fringe st' = snd popped @ new"
         "\<forall>e \<in> set new. snd (snd e) \<in> set (map fst (gnode (dmap (snd ct))))
                        \<and> snd (snd e) \<notin> set (map fst (dist (snd ct)))"
      by (auto simp: pushed_def st1_def)
    show ?thesis
      using n c dsd rest
      by (intro exI [of _ new]) (simp add: popped_def)
  qed
qed

lemma run_step_decreases:
  assumes "run_step nc st = Inr (Continue st')" and "r_fringe st \<noteq> []"
  shows "card (unsettled st') < card (unsettled st)
         \<or> (card (unsettled st') = card (unsettled st) \<and> stale st' < stale st)"
proof -
  define m where "m = fst (heappop (r_fringe st))"
  define v where "v = snd (snd m)"
  from run_step_Continue [OF assms] obtain new where
    dm: "dmap (r_dsp st') = dmap (r_dsp st)" and
    di: "set (map fst (dist (r_dsp st'))) = insert v (set (map fst (dist (r_dsp st))))" and
    fr: "r_fringe st' = remove1 m (r_fringe st) @ new" and
    nw: "\<forall>e \<in> set new. snd (snd e) \<in> set (map fst (gnode (dmap (r_dsp st'))))
                        \<and> snd (snd e) \<notin> set (map fst (dist (r_dsp st')))"
    unfolding m_def v_def by blast
  have min: "m \<in> set (r_fringe st)"
    unfolding m_def by (rule heappop_in [OF assms(2)])
  have sub: "unsettled st' \<subseteq> unsettled st"
  proof
    fix x assume x: "x \<in> unsettled st'"
    then have nd: "x \<notin> set (map fst (dist (r_dsp st)))" and nv: "x \<noteq> v"
      using di by (auto simp: unsettled_def)
    from x have "x \<in> set (map fst (gnode (dmap (r_dsp st))))
                 \<or> x \<in> (\<lambda>e. snd (snd e)) ` set (r_fringe st')"
      using dm by (auto simp: unsettled_def)
    then have "x \<in> set (map fst (gnode (dmap (r_dsp st))))
                 \<or> x \<in> (\<lambda>e. snd (snd e)) ` set (r_fringe st)"
    proof
      assume "x \<in> set (map fst (gnode (dmap (r_dsp st))))"
      then show ?thesis by simp
    next
      assume "x \<in> (\<lambda>e. snd (snd e)) ` set (r_fringe st')"
      then obtain e where e: "e \<in> set (r_fringe st')" "x = snd (snd e)" by blast
      then have "e \<in> set (remove1 m (r_fringe st)) \<or> e \<in> set new"
        using fr by simp
      then show ?thesis
      proof
        assume "e \<in> set (remove1 m (r_fringe st))"
        then have "e \<in> set (r_fringe st)" using set_remove1_subset [of m "r_fringe st"] by blast
        with e show ?thesis by blast
      next
        assume "e \<in> set new"
        with nw e dm show ?thesis by simp
      qed
    qed
    with nd show "x \<in> unsettled st" by (simp add: unsettled_def)
  qed
  show ?thesis
  proof (cases "v \<in> set (map fst (dist (r_dsp st)))")
    case True
    then have same: "set (map fst (dist (r_dsp st'))) = set (map fst (dist (r_dsp st)))"
      using di by auto
    have "stale st' = length (filter (\<lambda>e. snd (snd e) \<in> set (map fst (dist (r_dsp st))))
                         (remove1 m (r_fringe st)))"
      using nw same fr by (auto simp: stale_def filter_empty_conv)
    also have "\<dots> < stale st"
      unfolding stale_def using min True
      by (intro length_filter_remove1) (simp_all add: v_def)
    finally have st: "stale st' < stale st" .
    from sub have "card (unsettled st') \<le> card (unsettled st)"
      by (simp add: card_mono)
    with st show ?thesis by linarith
  next
    case False
    have "v \<in> unsettled st"
      using False min by (force simp: unsettled_def v_def)
    moreover have "v \<notin> unsettled st'"
      using di by (simp add: unsettled_def)
    ultimately have "unsettled st' \<subset> unsettled st"
      using sub by blast
    then have "card (unsettled st') < card (unsettled st)"
      by (simp add: psubset_card_mono)
    then show ?thesis by simp
  qed
qed

text \<open>The \<^verbatim>\<open>while fringe\<close> loop of \<^verbatim>\<open>_run\<close>.\<close>

function run_loop :: "bool \<Rightarrow> 'v run \<Rightarrow> error + 'v run" where
  "run_loop no_call st =
     (if r_fringe st = [] then Inr st
      else
        (case run_step no_call st of
           Inl e \<Rightarrow> Inl e
         | Inr (Break st') \<Rightarrow> Inr st'
         | Inr (Continue st') \<Rightarrow> run_loop no_call st'))"
  by pat_completeness auto
termination
proof (relation "inv_image (less_than <*lex*> less_than)
                   (\<lambda>p. (card (unsettled (snd p)), stale (snd p)))")
  show "wf (inv_image (less_than <*lex*> less_than)
                   (\<lambda>p. (card (unsettled (snd p)), stale (snd p))))"
    by (intro wf_inv_image wf_lex_prod wf_less_than)
next
  fix no_call and st :: "'v run" and x2 x1
  assume "r_fringe st \<noteq> []" "run_step no_call st = Inr x2" "x2 = Continue x1"
  then show "((no_call, x1), (no_call, st)) \<in> inv_image (less_than <*lex*> less_than)
                   (\<lambda>p. (card (unsettled (snd p)), stale (snd p)))"
    using run_step_decreases [of no_call st x1] by auto
qed

text \<open>
  The end of \<^verbatim>\<open>_run\<close>: the function nodes of the workflow that were not visited leave it.
\<close>

definition remove_unused_functions :: "'v dispatcher \<Rightarrow> error + 'v dispatcher" where
  "remove_unused_functions d =
     (case fold_err
             (\<lambda>n wfl. case map_of (gnode (dmap d)) n of
                         None \<Rightarrow> Inl (KeyError (spelling n))
                       | Some (FunctionNode f) \<Rightarrow> remove_node wfl n
                       | Some (DataNode a) \<Rightarrow> Inr wfl)
             (filter (\<lambda>n. n \<notin> set (visited d)) (map fst (gnode (workflow d))))
             (workflow d) of
        Inl e \<Rightarrow> Inl e
      | Inr wfl \<Rightarrow> Inr (d\<lparr>workflow := wfl\<rparr>))"

text \<open>
  \<^verbatim>\<open>_run(fringe, seen, no_call)\<close>: the workflow and the data output it returns are those
  of the dispatcher of the final state.
\<close>

definition run :: "'v run \<Rightarrow> bool \<Rightarrow> error + 'v run" where
  "run st no_call =
     (case run_loop no_call st of
        Inl e \<Rightarrow> Inl e
      | Inr st' \<Rightarrow>
          (case remove_unused_functions (r_dsp st') of
             Inl e \<Rightarrow> Inl e
           | Inr d \<Rightarrow> Inr (st'\<lparr>r_dsp := d\<rparr>)))"

text \<open>
  The body of \<^verbatim>\<open>dispatch\<close> once the dispatcher to run is chosen: initialise, run, and
  add to the data output the inputs that are not nodes of the dispatcher.
\<close>

definition inputs_truthy :: "'v py_inputs option \<Rightarrow> bool" where
  "inputs_truthy ins = (case ins of None \<Rightarrow> False | Some i \<Rightarrow> input_keys i \<noteq> [])"

definition out_dsp_values ::
  "'v py_inputs option \<Rightarrow> node list \<Rightarrow> error + (node \<times> 'v val) list" where
  "out_dsp_values ins out_dsp_nodes =
     (case ins of
        Some (Dict d) \<Rightarrow>
          fold_err (\<lambda>k acc. case map_of d k of
                              None \<Rightarrow> Inl (KeyError (spelling k))
                            | Some x \<Rightarrow> Inr (dict_set k x acc))
                   out_dsp_nodes []
      | Some (Keys ks) \<Rightarrow>
          if out_dsp_nodes = [] then Inr []
          else Inl (TypeError ''list indices must be integers'')
      | None \<Rightarrow> Inr [])"

definition dispatch_run ::
  "'v dispatcher \<Rightarrow> 'v py_inputs option \<Rightarrow> node list option \<Rightarrow> int option \<Rightarrow> bool \<Rightarrow> bool
     \<Rightarrow> error + 'v run" where
  "dispatch_run d ins outs cutoff_arg wildcard no_call =
     (case init_run d ins outs wildcard cutoff_arg no_call of
        Inl e \<Rightarrow> Inl e
      | Inr a \<Rightarrow>
          (case run (snd a) no_call of
             Inl e \<Rightarrow> Inl e
           | Inr st \<Rightarrow>
               (let out_dsp_nodes = filter (\<lambda>k. \<not> has_node (dmap d) k) (map fst (fst a)) in
                if inputs_truthy ins then
                  (case out_dsp_values ins out_dsp_nodes of
                     Inl e \<Rightarrow> Inl e
                   | Inr upd \<Rightarrow>
                       Inr (st\<lparr>r_dsp := (r_dsp st)
                              \<lparr>data_output := dict_update (data_output (r_dsp st)) upd\<rparr>\<rparr>))
                else Inr st)))"

section \<open>Sub-dispatchers and shrinking\<close>

text \<open>
  \<^verbatim>\<open>get_sub_dsp_from_workflow(sources, graph, reverse=True)\<close>: the breadth-first search over
  the predecessors in \<open>g\<close>, as \<^verbatim>\<open>shrink_dsp\<close> calls it (the forward search is not
  modelled). The family of the search is the dictionary of the nodes of the new
  dispatcher, which serves as the queue. \<^verbatim>\<open>set_node_attr\<close> copies the attributes and the
  default value of a node; a node that is not in \<open>g\<close> has no predecessors to iterate.
\<close>

definition set_node_attr ::
  "'v dispatcher \<Rightarrow> ('a, 'e) digraph \<Rightarrow> node \<Rightarrow> 'v dispatcher \<Rightarrow> error + 'v dispatcher" where
  "set_node_attr d g n sub =
     (case map_of (gnode (dmap d)) n of
        None \<Rightarrow> Inl (KeyError (spelling n))
      | Some a \<Rightarrow>
          if \<not> has_node g n then Inl (NetworkXError (spelling n))
          else Inr (sub\<lparr>dmap := (dmap sub)\<lparr>gnode := dict_set n a (gnode (dmap sub))\<rparr>,
                        default_values :=
                          (case map_of (default_values d) n of
                             None \<Rightarrow> default_values sub
                           | Some x \<Rightarrow> dict_set n x (default_values sub))\<rparr>))"

text \<open>
  The body of the loop over the children of a parent: the state is the new dispatcher
  and the nodes that joined the family during this loop.
\<close>

definition bfs_child ::
  "'v dispatcher \<Rightarrow> ('a, 'e) digraph \<Rightarrow> node \<Rightarrow> node \<Rightarrow> 'v dispatcher \<times> node list
     \<Rightarrow> error + ('v dispatcher \<times> node list)" where
  "bfs_child d g parent child acc =
     (if child = START then Inr acc
      else
        (case (if \<not> has_node (dmap (fst acc)) child
               then (case set_node_attr d g child (fst acc) of
                       Inl e \<Rightarrow> Inl e
                     | Inr sub \<Rightarrow> Inr (sub, snd acc @ [child]))
               else Inr acc) of
           Inl e \<Rightarrow> Inl e
         | Inr acc' \<Rightarrow>
             (case map_of (gedge (dmap d)) (child, parent) of
                None \<Rightarrow> Inl (KeyError (spelling child))
              | Some e \<Rightarrow>
                  Inr ((fst acc')\<lparr>dmap := (dmap (fst acc'))
                          \<lparr>gedge := dict_set (child, parent) e (gedge (dmap (fst acc')))\<rparr>\<rparr>,
                       snd acc'))))"

text \<open>What a loop over the children adds to the family: nodes of \<open>g\<close> that were not in it.\<close>

definition joined ::
  "('a, 'e) digraph \<Rightarrow> 'v dispatcher \<times> node list \<Rightarrow> 'v dispatcher \<times> node list \<Rightarrow> bool" where
  "joined g acc acc' =
     (\<exists>added. snd acc' = snd acc @ added
        \<and> set (map fst (gnode (dmap (fst acc'))))
            = set (map fst (gnode (dmap (fst acc)))) \<union> set added
        \<and> set added \<subseteq> set (map fst (gnode g)) - set (map fst (gnode (dmap (fst acc)))))"

lemma joined_refl [simp]: "joined g acc acc"
  by (simp add: joined_def)

lemma joined_trans: "joined g a b \<Longrightarrow> joined g b c \<Longrightarrow> joined g a c"
  unfolding joined_def
  by (elim exE conjE) (rule_tac x="added @ addeda" in exI, auto)

lemma set_node_attr_nodes:
  "set_node_attr d g n sub = Inr sub' \<Longrightarrow>
     set (map fst (gnode (dmap sub'))) = insert n (set (map fst (gnode (dmap sub))))
     \<and> n \<in> set (map fst (gnode g))"
proof -
  assume a: "set_node_attr d g n sub = Inr sub'"
  then obtain x where x: "map_of (gnode (dmap d)) n = Some x" and h: "has_node g n"
    by (auto simp: set_node_attr_def split: option.splits if_splits)
  from a x h have "gnode (dmap sub') = dict_set n x (gnode (dmap sub))"
    by (auto simp: set_node_attr_def split: option.splits)
  then have "fst ` set (gnode (dmap sub')) = insert n (fst ` set (gnode (dmap sub)))"
    by (simp only: fst_set_dict_set)
  with h show ?thesis by (simp add: has_node_def)
qed

lemma bfs_child_joined: "bfs_child d g parent child acc = Inr acc' \<Longrightarrow> joined g acc acc'"
  unfolding bfs_child_def joined_def
  by (auto simp: has_node_def split: if_splits sum.splits option.splits
           dest!: set_node_attr_nodes)

lemma fold_bfs_child_joined:
  "fold_err (bfs_child d g parent) cs acc = Inr acc' \<Longrightarrow> joined g acc acc'"
proof (induction cs arbitrary: acc)
  case Nil
  then show ?case by simp
next
  case (Cons c cs)
  then show ?case
    by (auto split: sum.splits intro: joined_trans dest: bfs_child_joined)
qed

lemma bfs_measure:
  assumes a: "fold_err (bfs_child d g parent) (pred_keys g parent) (sub, []) = Inr acc"
  shows "card (set (map fst (gnode g)) - set (map fst (gnode (dmap (fst acc)))))
           < card (set (map fst (gnode g)) - set (map fst (gnode (dmap sub))))
         \<or> (card (set (map fst (gnode g)) - set (map fst (gnode (dmap (fst acc)))))
              = card (set (map fst (gnode g)) - set (map fst (gnode (dmap sub))))
            \<and> snd acc = [])"
proof -
  from fold_bfs_child_joined [OF a] obtain added where
    ad: "snd acc = added"
        "set (map fst (gnode (dmap (fst acc)))) = set (map fst (gnode (dmap sub))) \<union> set added"
        "set added \<subseteq> set (map fst (gnode g)) - set (map fst (gnode (dmap sub)))"
    by (auto simp: joined_def)
  let ?U = "set (map fst (gnode g))"
  show ?thesis
  proof (cases "added = []")
    case True
    with ad show ?thesis by simp
  next
    case False
    then obtain x where x: "x \<in> set added" by (cases added) auto
    have "x \<in> ?U - set (map fst (gnode (dmap sub)))"
      using ad(3) x by blast
    moreover have "x \<notin> ?U - set (map fst (gnode (dmap (fst acc))))"
      using ad(2) x by blast
    moreover have "?U - set (map fst (gnode (dmap (fst acc)))) \<subseteq> ?U - set (map fst (gnode (dmap sub)))"
      using ad(2) by blast
    ultimately have "?U - set (map fst (gnode (dmap (fst acc)))) \<subset> ?U - set (map fst (gnode (dmap sub)))"
      by blast
    then have "card (?U - set (map fst (gnode (dmap (fst acc)))))
               < card (?U - set (map fst (gnode (dmap sub))))"
      by (intro psubset_card_mono) auto
    then show ?thesis by simp
  qed
qed

text \<open>
  The search: the first node of the queue is the parent; the nodes that joined the family
  go to the end of the queue. It ends because the family only takes nodes of \<open>g\<close>.
\<close>

function bfs ::
  "'v dispatcher \<Rightarrow> ('a, 'e) digraph \<Rightarrow> node list \<Rightarrow> 'v dispatcher \<Rightarrow> error + 'v dispatcher" where
  "bfs d g [] sub = Inr sub"
| "bfs d g (parent # queue) sub =
     (case fold_err (bfs_child d g parent) (pred_keys g parent) (sub, []) of
        Inl e \<Rightarrow> Inl e
      | Inr acc \<Rightarrow> bfs d g (queue @ snd acc) (fst acc))"
  by pat_completeness auto
termination
  apply (relation "inv_image (less_than <*lex*> less_than)
     (\<lambda>p. (card (set (map fst (gnode (fst (snd p))))
                    - set (map fst (gnode (dmap (snd (snd (snd p))))))),
            length (fst (snd (snd p)))))")
   apply (intro wf_inv_image wf_lex_prod wf_less_than)
  subgoal for d g parent queue sub acc
    using bfs_measure [of d g parent sub acc] by auto
  done

definition init_source ::
  "'v dispatcher \<Rightarrow> ('a, 'e) digraph \<Rightarrow> node \<Rightarrow> 'v dispatcher \<times> node list
     \<Rightarrow> error + ('v dispatcher \<times> node list)" where
  "init_source d g s acc =
     (if has_node (dmap d) s \<and> has_node g s
      then (case set_node_attr d g s (fst acc) of
              Inl e \<Rightarrow> Inl e
            | Inr sub \<Rightarrow> Inr (sub, set_add s (snd acc)))
      else Inr acc)"

definition get_sub_dsp_from_workflow ::
  "'v dispatcher \<Rightarrow> node list \<Rightarrow> ('a, 'e) digraph \<Rightarrow> error + 'v dispatcher" where
  "get_sub_dsp_from_workflow d sources g =
     (case fold_err (init_source d g) sources (Dispatcher empty_graph [] False, []) of
        Inl e \<Rightarrow> Inl e
      | Inr acc \<Rightarrow> bfs d g (snd acc) (fst acc))"

text \<open>
  \<^verbatim>\<open>shrink_dsp\<close>. The \<^verbatim>\<open>while True\<close> loop dispatches without calls until every node of
  the workflow has been visited; the nodes that were not become inputs. The loop need not
  end, so it is a partial function: \<open>None\<close> is the loop that runs forever. The state of
  the loop is the dispatcher (with its \<^verbatim>\<open>_wait_in\<close>), the inputs and the set of edges; the
  result is the dispatcher, the edges and the data output of the last dispatch.
\<close>

partial_function (option) shrink_loop ::
  "'v dispatcher \<Rightarrow> 'v py_inputs \<Rightarrow> node list option \<Rightarrow> int option \<Rightarrow> (node \<times> node) list
     \<Rightarrow> (error + ('v dispatcher \<times> (node \<times> node) list \<times> (node \<times> 'v val) list)) option" where
  "shrink_loop d ins outs cutoff_arg edges =
     (case dispatch_run
             (d\<lparr>wait_in := map (\<lambda>p. (fst p, if snd p \<and> fst p \<in> set (input_keys ins)
                                               then False else snd p)) (wait_in d)\<rparr>)
             (Some ins) outs cutoff_arg True True of
        Inl e \<Rightarrow> Some (Inl e)
      | Inr st \<Rightarrow>
          (if filter (\<lambda>n. n \<notin> set (visited (r_dsp st))) (map fst (gnode (workflow (r_dsp st)))) = []
           then Some (Inr (r_dsp st,
                           set_update edges (map fst (gedge (workflow (r_dsp st)))),
                           data_output (r_dsp st)))
           else shrink_loop (r_dsp st)
                  (Keys (set_update
                           (filter (\<lambda>n. n \<notin> set (visited (r_dsp st)))
                                   (map fst (gnode (workflow (r_dsp st)))))
                           (input_keys ins)))
                  outs cutoff_arg
                  (set_update edges (map fst (gedge (workflow (r_dsp st)))))))"

declare shrink_loop.simps [code]

text \<open>
  The end of \<^verbatim>\<open>shrink_dsp\<close>: \<^verbatim>\<open>_wait_in\<close> is cleared, and the result is the sub-dispatcher
  searched backwards from the outputs, or the empty dispatcher when there are none. The
  result comes with the dispatcher itself, whose state has changed.
\<close>

definition shrink_finish ::
  "'v dispatcher \<Rightarrow> node list option \<Rightarrow> ('a, 'e) digraph
     \<Rightarrow> error + ('v dispatcher \<times> 'v dispatcher)" where
  "shrink_finish d outs g =
     (case outs of
        None \<Rightarrow> Inr (Dispatcher empty_graph [] False, d\<lparr>wait_in := []\<rparr>)
      | Some os \<Rightarrow>
          if os = [] then Inr (Dispatcher empty_graph [] False, d\<lparr>wait_in := []\<rparr>)
          else (case get_sub_dsp_from_workflow (d\<lparr>wait_in := []\<rparr>) os g of
                  Inl e \<Rightarrow> Inl e
                | Inr sub \<Rightarrow> Inr (sub, d\<lparr>wait_in := []\<rparr>)))"

definition bfs_graph_of :: "(node \<times> node) list \<Rightarrow> (unit, unit) digraph" where
  "bfs_graph_of edges = fold (\<lambda>e g. add_edge g (fst e) (snd e) ()) edges empty_graph"

definition shrink_dsp ::
  "'v dispatcher \<Rightarrow> 'v py_inputs option \<Rightarrow> node list option \<Rightarrow> int option
     \<Rightarrow> (error + ('v dispatcher \<times> 'v dispatcher)) option" where
  "shrink_dsp d ins outs cutoff_arg =
     (case ins of
        None \<Rightarrow> Some (shrink_finish d outs (dmap d))
      | Some i \<Rightarrow>
          if input_keys i = [] then Some (shrink_finish d outs (dmap d))
          else
            (case shrink_loop (set_wait_in d) i outs cutoff_arg [] of
               None \<Rightarrow> None
             | Some (Inl e) \<Rightarrow> Some (Inl e)
             | Some (Inr r) \<Rightarrow>
                 Some (shrink_finish (fst r)
                         (case outs of None \<Rightarrow> Some (map fst (snd (snd r))) | Some os \<Rightarrow> Some os)
                         (bfs_graph_of (fst (snd r))))))"

text \<open>
  \<^verbatim>\<open>dispatch(inputs, outputs, cutoff, wildcard, no_call, shrink)\<close>: the final state of the
  run (with the dispatcher that ran, its workflow and its data output, and the events),
  and the dispatcher itself after the call. \<open>None\<close>: the shrinking does not end.
\<close>

definition dispatch ::
  "'v dispatcher \<Rightarrow> 'v py_inputs option \<Rightarrow> node list option \<Rightarrow> int option
     \<Rightarrow> bool \<Rightarrow> bool \<Rightarrow> bool \<Rightarrow> (error + ('v run \<times> 'v dispatcher)) option" where
  "dispatch d ins outs cutoff_arg wildcard no_call shrink =
     (if \<not> no_call \<and> shrink then
        (case shrink_dsp d ins outs cutoff_arg of
           None \<Rightarrow> None
         | Some (Inl e) \<Rightarrow> Some (Inl e)
         | Some (Inr r) \<Rightarrow>
             (case dispatch_run (fst r) ins outs cutoff_arg wildcard no_call of
                Inl e \<Rightarrow> Some (Inl e)
              | Inr st \<Rightarrow> Some (Inr (st, snd r))))
      else
        (case dispatch_run d ins outs cutoff_arg wildcard no_call of
           Inl e \<Rightarrow> Some (Inl e)
         | Inr st \<Rightarrow> Some (Inr (st, r_dsp st))))"

section \<open>SubDispatchFunction (dispatcher/utils/dsp.py)\<close>

text \<open>
  The object keeps the shrunk dispatcher, the inputs, the outputs and the input values;
  its attributes \<^verbatim>\<open>data_output\<close>, \<^verbatim>\<open>dist\<close> and \<^verbatim>\<open>workflow\<close> are those of the dispatcher
  after a call. The message of the error shows the set of the missing outputs.
\<close>

record 'v sub_dispatch_function =
  sdf_dsp :: "'v dispatcher"
  sdf_inputs :: "node list"
  sdf_outputs :: "node list option"
  sdf_input_values :: "(node \<times> 'v val) list"

definition repr_node :: "node \<Rightarrow> string" where
  "repr_node n = (case n of Key s \<Rightarrow> quoted s | _ \<Rightarrow> spelling n)"

fun join_comma :: "string list \<Rightarrow> string" where
  "join_comma [] = []"
| "join_comma [x] = x"
| "join_comma (x # y # ys) = x @ '', '' @ join_comma (y # ys)"

definition repr_set :: "node list \<Rightarrow> string" where
  "repr_set ns = (if ns = [] then ''set()'' else ''{'' @ join_comma (map repr_node ns) @ ''}'')"

definition unreachable :: "node list \<Rightarrow> error" where
  "unreachable missed = ValueError (''Unreachable output-targets:'' @ repr_set missed)"

text \<open>\<^verbatim>\<open>SubDispatchFunction.__init__(dsp, function_id, inputs, outputs, cutoff)\<close>.\<close>

definition SubDispatchFunction ::
  "'v dispatcher \<Rightarrow> node list \<Rightarrow> node list option \<Rightarrow> int option
     \<Rightarrow> (error + ('v sub_dispatch_function \<times> 'v dispatcher)) option" where
  "SubDispatchFunction d ins outs cutoff_arg =
     (case shrink_dsp d (Some (Keys ins)) outs cutoff_arg of
        None \<Rightarrow> None
      | Some (Inl e) \<Rightarrow> Some (Inl e)
      | Some (Inr r) \<Rightarrow>
          (let missed = (case outs of
                           None \<Rightarrow> []
                         | Some os \<Rightarrow> filter (\<lambda>k. \<not> has_node (dmap (fst r)) k) (set_update [] os))
           in
           if missed \<noteq> [] then Some (Inl (unreachable missed))
           else
             (case get_initial_values (fst r) None False of
                Inl e \<Rightarrow> Some (Inl e)
              | Inr input_values \<Rightarrow>
                  (case set_wildcards (fst r) ins outs of
                     Inl e \<Rightarrow> Some (Inl e)
                   | Inr sub \<Rightarrow>
                       Some (Inr (\<lparr>sdf_dsp = sub, sdf_inputs = ins, sdf_outputs = outs,
                                   sdf_input_values = input_values\<rparr>, snd r))))))"

text \<open>
  \<^verbatim>\<open>return_output\<close>: the whole output, the list of the outputs, or the single output. A
  missing key is a \<^verbatim>\<open>KeyError\<close>, which \<^verbatim>\<open>__call__\<close> turns into the \<^verbatim>\<open>ValueError\<close>.
\<close>

datatype 'v returned = OutDict "(node \<times> 'v val) list" | OutList "'v val list" | OutScalar "'v val"

fun lookup_all :: "(node \<times> 'v val) list \<Rightarrow> node list \<Rightarrow> error + 'v val list" where
  "lookup_all o_map [] = Inr []"
| "lookup_all o_map (k # ks) =
     (case map_of o_map k of
        None \<Rightarrow> Inl (KeyError (repr_node k))
      | Some x \<Rightarrow> (case lookup_all o_map ks of Inl e \<Rightarrow> Inl e | Inr xs \<Rightarrow> Inr (x # xs)))"

definition return_output ::
  "node list option \<Rightarrow> (node \<times> 'v val) list \<Rightarrow> error + 'v returned" where
  "return_output outs o_map =
     (case outs of
        None \<Rightarrow> Inr (OutDict o_map)
      | Some os \<Rightarrow>
          if length os > 1 then
            (case lookup_all o_map os of Inl e \<Rightarrow> Inl e | Inr xs \<Rightarrow> Inr (OutList xs))
          else
            (case os of
               [] \<Rightarrow> Inl (IndexError ''list index out of range'')
             | k # ks \<Rightarrow>
                 (case map_of o_map k of
                    None \<Rightarrow> Inl (KeyError (repr_node k))
                  | Some x \<Rightarrow> Inr (OutScalar x))))"

text \<open>\<^verbatim>\<open>SubDispatchFunction.__call__(*args)\<close>: what is returned, the events, the object.\<close>

definition sdf_call ::
  "'v sub_dispatch_function \<Rightarrow> 'v val list
     \<Rightarrow> error + ('v returned \<times> 'v event list \<times> 'v sub_dispatch_function)" where
  "sdf_call f args =
     (let input_values = dict_update (sdf_input_values f) (zip (sdf_inputs f) args) in
      case init_workflow (sdf_dsp f) (map (\<lambda>p. (fst p, Some (snd p))) input_values) of
        Inl e \<Rightarrow> Inl e
      | Inr st0 \<Rightarrow>
          (case run st0 False of
             Inl e \<Rightarrow> Inl e
           | Inr st \<Rightarrow>
               (case return_output (sdf_outputs f) (data_output (r_dsp st)) of
                  Inl (KeyError k) \<Rightarrow>
                    Inl (unreachable
                           (filter (\<lambda>k. k \<notin> set (map fst (data_output (r_dsp st))))
                              (set_update [] (case sdf_outputs f of None \<Rightarrow> [] | Some os \<Rightarrow> os))))
                | Inl e \<Rightarrow> Inl e
                | Inr res \<Rightarrow>
                    Inr (res, r_events st,
                         f\<lparr>sdf_dsp := r_dsp st, sdf_input_values := input_values\<rparr>))))"

section \<open>The canonical example\<close>

text \<open>
  The dispatcher of the docstring of the class \<^verbatim>\<open>Dispatcher\<close>, with numbers as values:
  \<^verbatim>\<open>add_data('a')\<close>, \<^verbatim>\<open>add_data('c')\<close>, \<^verbatim>\<open>add_data('b', default_value=1)\<close>,
  \<^verbatim>\<open>add_function('diff_function', diff_function, ['a', 'b'], ['c'])\<close>,
  \<^verbatim>\<open>add_function('log', log, ['c'], ['d'], input_domain=log_domain)\<close> and
  \<^verbatim>\<open>add_data('d', default_value=4, wait_inputs=True, function=average_fun,
  callback=callback_fun)\<close>. The nodes and the edges are listed in the order in which these
  calls create them. \<^verbatim>\<open>math.log\<close> is the natural logarithm; its value at 1 is what the
  evaluation needs.
\<close>

definition ln_other :: "real \<Rightarrow> real" where
  ln_other_def [code del]: "ln_other x = ln x"

definition math_log :: "real \<Rightarrow> real" where
  math_log_def [code del]: "math_log x = ln x"

lemma math_log_code [code]: "math_log x = (if x = 1 then 0 else ln_other x)"
  by (simp add: math_log_def ln_other_def)

definition plain_data :: "'v data_attr" where
  "plain_data = \<lparr>d_wait_inputs = False, d_wildcard = None, d_function = None,
                  d_callback = None, d_weight = None\<rparr>"

definition diff_function :: "real val list \<Rightarrow> real result" where
  "diff_function args =
     (case args of [V a, V b] \<Rightarrow> Returns (V (b - a)) None | _ \<Rightarrow> Raises ''TypeError'')"

definition log_function :: "real val list \<Rightarrow> real result" where
  "log_function args =
     (case args of
        [V x] \<Rightarrow> if x > 0 then Returns (V (math_log x)) None else Raises ''math domain error''
      | _ \<Rightarrow> Raises ''TypeError'')"

definition log_domain :: "real val list \<Rightarrow> string + bool" where
  "log_domain args = (case args of [V x] \<Rightarrow> Inr (x > 0) | _ \<Rightarrow> Inl ''TypeError'')"

definition val_number :: "real val \<Rightarrow> real option" where
  "val_number x = (case x of V r \<Rightarrow> Some r | NONE \<Rightarrow> None)"

definition average_fun :: "(node \<times> real val) list \<Rightarrow> string + real val" where
  "average_fun kwargs =
     (if kwargs = [] then Inl ''division by zero''
      else if None \<in> set (map (\<lambda>p. val_number (snd p)) kwargs) then Inl ''TypeError''
      else Inr (V (sum_list (map (\<lambda>p. case snd p of V r \<Rightarrow> r | NONE \<Rightarrow> 0) kwargs)
                   / real (length kwargs))))"

definition callback_fun :: "real val \<Rightarrow> string option" where
  "callback_fun x = (case x of V r \<Rightarrow> None | NONE \<Rightarrow> Some ''TypeError'')"

definition canonical :: "real dispatcher" where
  "canonical =
     Dispatcher
       \<lparr>gnode =
          [(Key ''a'', DataNode plain_data),
           (Key ''c'', DataNode plain_data),
           (Key ''b'', DataNode plain_data),
           (Key ''diff_function'',
              FunctionNode \<lparr>f_inputs = [Key ''a'', Key ''b''], f_outputs = [Key ''c''],
                            f_function = diff_function, f_input_domain = None,
                            f_weight = None\<rparr>),
           (Key ''log'',
              FunctionNode \<lparr>f_inputs = [Key ''c''], f_outputs = [Key ''d''],
                            f_function = log_function, f_input_domain = Some log_domain,
                            f_weight = None\<rparr>),
           (Key ''d'',
              DataNode \<lparr>d_wait_inputs = True, d_wildcard = None,
                        d_function = Some average_fun, d_callback = Some callback_fun,
                        d_weight = None\<rparr>)],
        gedge =
          [((Key ''a'', Key ''diff_function''), None),
           ((Key ''b'', Key ''diff_function''), None),
           ((Key ''diff_function'', Key ''c''), None),
           ((Key ''c'', Key ''log''), None),
           ((Key ''log'', Key ''d''), None)]\<rparr>
       [(Key ''b'', V 1), (Key ''d'', V 4)]
       False"

text \<open>What a call of \<^verbatim>\<open>dispatch\<close> returns and does: the data output and the events.\<close>

definition outcome ::
  "(error + ('v run \<times> 'v dispatcher)) option
     \<Rightarrow> (error + ((node \<times> 'v val) list \<times> 'v event list)) option" where
  "outcome r =
     (case r of
        None \<Rightarrow> None
      | Some (Inl e) \<Rightarrow> Some (Inl e)
      | Some (Inr p) \<Rightarrow> Some (Inr (data_output (r_dsp (fst p)), r_events (fst p))))"

section \<open>States of a run and further examples\<close>









text \<open>
  The \<^verbatim>\<open>wait_inputs\<close> flag of a node in force during a run:
  \<^verbatim>\<open>_wait_in.get(node_id, node['wait_inputs'])\<close>.
\<close>

definition effective_wait_inputs :: "'v dispatcher \<Rightarrow> node \<Rightarrow> bool" where
  "effective_wait_inputs d n =
     dict_get (wait_in d) n
       (case map_of (gnode (dmap d)) n of None \<Rightarrow> False | Some a \<Rightarrow> node_wait_inputs a)"

definition one_result :: "int val list \<Rightarrow> int result" where
  "one_result args = (case args of [x] \<Rightarrow> Returns x None | _ \<Rightarrow> Raises ''TypeError'')"





text \<open>
  Two functions estimate \<open>c\<close> from \<open>a\<close>:
  \<^verbatim>\<open>add_function('f1', one_result, ['a'], ['c'], weight_to={'c': 10})\<close> and
  \<^verbatim>\<open>add_function('f2', one_result, ['a'], ['c'], weight=1)\<close>.
\<close>

definition two_paths :: "int dispatcher" where
  "two_paths =
     Dispatcher
       \<lparr>gnode =
          [(Key ''f1'',
              FunctionNode \<lparr>f_inputs = [Key ''a''], f_outputs = [Key ''c''],
                            f_function = one_result, f_input_domain = None,
                            f_weight = None\<rparr>),
           (Key ''a'', DataNode plain_data),
           (Key ''c'', DataNode plain_data),
           (Key ''f2'',
              FunctionNode \<lparr>f_inputs = [Key ''a''], f_outputs = [Key ''c''],
                            f_function = one_result, f_input_domain = None,
                            f_weight = Some 1\<rparr>)],
        gedge =
          [((Key ''a'', Key ''f1''), None), ((Key ''f1'', Key ''c''), Some 10),
           ((Key ''a'', Key ''f2''), None), ((Key ''f2'', Key ''c''), None)]\<rparr>
       [] False"

text \<open>
  The sum of claim C5 along a path, in the words of the claim: over the edges of the
  path, the weight of the edge (1 when it has none, as for an edge from \<^verbatim>\<open>START\<close>) plus
  the weight of the destination node (0 when it has none).
\<close>

fun claimed_path_sum :: "('v node_attr, int option) digraph \<Rightarrow> node list \<Rightarrow> int" where
  "claimed_path_sum g (u # v # rest) =
     (case map_of (gedge g) (u, v) of None \<Rightarrow> 1 | Some None \<Rightarrow> 1 | Some (Some x) \<Rightarrow> x)
     + (case map_of (gnode g) v of
          None \<Rightarrow> 0
        | Some a \<Rightarrow> (case node_weight a of None \<Rightarrow> 0 | Some x \<Rightarrow> x))
     + claimed_path_sum g (v # rest)"
| "claimed_path_sum g [u] = 0"
| "claimed_path_sum g [] = 0"

text \<open>The distances and the edges of the workflow after a call of \<^verbatim>\<open>dispatch\<close>.\<close>

definition distances ::
  "(error + ('v run \<times> 'v dispatcher)) option
     \<Rightarrow> (error + ((node \<times> int) list \<times> (node \<times> node) list)) option" where
  "distances r =
     (case r of
        None \<Rightarrow> None
      | Some (Inl e) \<Rightarrow> Some (Inl e)
      | Some (Inr p) \<Rightarrow>
          Some (Inr (dist (r_dsp (fst p)), map fst (gedge (workflow (r_dsp (fst p)))))))"

text \<open>
  The states of a run: the state in which \<^verbatim>\<open>_init_workflow\<close> leaves it, and the state
  after each turn of the loop of \<^verbatim>\<open>_run\<close> that does not end it.
\<close>

inductive_set run_states :: "bool \<Rightarrow> 'v run \<Rightarrow> 'v run set"
  for no_call :: bool and st0 :: "'v run" where
    start: "st0 \<in> run_states no_call st0"
  | turn: "st \<in> run_states no_call st0 \<Longrightarrow> r_fringe st \<noteq> [] \<Longrightarrow>
           run_step no_call st = Inr (Continue st') \<Longrightarrow> st' \<in> run_states no_call st0"


text \<open>
  The readiness of a fringe: every entry for a node whose \<^verbatim>\<open>wait_inputs\<close> flag is in force
  has all the predecessors of the node in the map among the visited nodes.
\<close>

definition ready :: "'v dispatcher \<Rightarrow> (int \<times> bool \<times> node) list \<Rightarrow> bool" where
  "ready d fr =
     (\<forall>e \<in> set fr. effective_wait_inputs d (snd (snd e)) \<longrightarrow>
        set (pred_keys (dmap d) (snd (snd e))) \<subseteq> set (visited d))"


section \<open>The canonical dispatch\<close>

text \<open>
  Claim C1. Dispatching the canonical model with the inputs \<open>{a: 0}\<close> and the outputs
  \<open>[d]\<close> returns the data output \<open>{a: 0, b: 1, c: 1, d: 2.0}\<close>, and the only event of
  the run is one call of the callback of \<open>d\<close>, with the argument \<open>2.0\<close>.
\<close>

theorem canonical_dispatch:
  "outcome (dispatch canonical (Some (Dict [(Key ''a'', V 0)])) (Some [Key ''d'']) None
              False False False)
   = Some (Inr ([(Key ''a'', V 0), (Key ''b'', V 1), (Key ''c'', V 1), (Key ''d'', V 2)],
                [Callback (Key ''d'') (V 2)]))"
  by code_simp

section \<open>Contradictory paths\<close>













section \<open>Exceptions of callbacks\<close>


lemma data_output_set_workflow_succ [simp]:
  "data_output (set_workflow_succ d n x) = data_output d"
  by (simp add: set_workflow_succ_def Let_def)




section \<open>Waiting data nodes without an aggregator\<close>


lemma remove_edges_from_subset:
  "set (gedge (remove_edges_from g es)) \<subseteq> set (gedge g)"
  by (auto simp: remove_edges_from_def)




section \<open>Shrinking without outputs\<close>



section \<open>Distances and workflow paths\<close>

text \<open>
  Claim C5 on \<open>two_paths\<close> with the input \<open>{a: 7}\<close>: the dispatch succeeds and \<open>c\<close> is in
  the data output; the only path of the workflow from \<^verbatim>\<open>START\<close> to \<open>c\<close> is
  \<open>START, a, f2, c\<close>, whose sum is 4 (3 from the distance \<open>- 1\<close> of \<^verbatim>\<open>START\<close>); the distance
  of \<open>c\<close> is 11, the length of the path through \<open>f1\<close> that left the workflow. The entry
  \<open>(11, c)\<close> stays in the fringe when \<open>(3, c)\<close> is pushed, and its pop overwrites the
  distance.
\<close>

theorem stale_entry_overwrites_distance:
  "outcome (dispatch two_paths (Some (Dict [(Key ''a'', V 7)])) None None False False False)
     = Some (Inr ([(Key ''a'', V 7), (Key ''c'', V 7)], []))
   \<and> distances (dispatch two_paths (Some (Dict [(Key ''a'', V 7)])) None None False False False)
     = Some (Inr ([(START, - 1), (Key ''a'', 0), (Key ''f1'', 1), (Key ''f2'', 2), (Key ''c'', 11)],
                  [(START, Key ''a''), (Key ''a'', Key ''f1''), (Key ''a'', Key ''f2''),
                   (Key ''f2'', Key ''c'')]))
   \<and> claimed_path_sum (dmap two_paths) [START, Key ''a'', Key ''f2'', Key ''c''] = 4"
  by code_simp

section \<open>The readiness of waiting nodes\<close>

lemma ready_Nil [simp]: "ready d []"
  by (simp add: ready_def)

















section \<open>Properties of the tokens\<close>



end
